theory Spec2Isabelle
  imports Main
begin

section \<open>Omvyx Voice: the Retell webhook handler of \<^verbatim>\<open>main.py\<close>\<close>

text \<open>
  \<^verbatim>\<open>main.py\<close> holds two request handlers, \<^verbatim>\<open>health\<close> and \<^verbatim>\<open>retell_webhook\<close>.
  This theory embeds both. The code of the handlers is modelled statement by
  statement; what they call in other packages is modelled at its interface:
  \<^item> \<^verbatim>\<open>await request.json()\<close> yields the parsed body, a value of type \<open>json\<close>;
  \<^item> \<^verbatim>\<open>HumanMessage(content=c)\<close> validates \<open>c\<close> and \<^verbatim>\<open>JSONResponse(d)\<close> renders \<open>d\<close>
    when it is constructed: either can raise, inside the handler;
  \<^item> \<^verbatim>\<open>graph\<close>, the object compiled by \<^verbatim>\<open>graph.workflow.compile_graph\<close>, and
    \<^verbatim>\<open>SYSTEM_PROMPT\<close> are parameters of the handler;
  \<^item> \<^verbatim>\<open>logger.info\<close> appends a record to a log.
\<close>

subsection \<open>Values of a parsed JSON body\<close>

text \<open>
  Python's \<^verbatim>\<open>json\<close> module reads a number without fraction and exponent as an
  unbounded \<^verbatim>\<open>int\<close> and any other number as a \<^verbatim>\<open>float\<close>. Of a float the handler
  asks whether it is zero, and the response whether it is finite, so a float is kept
  as sign (true for minus), mantissa and binary exponent, or as one of the special
  values: an infinity with its sign (what a number too large, such as \<^verbatim>\<open>1e400\<close>, is
  read as) or not-a-number.
\<close>

datatype pyfloat = Finite bool nat int | Infinity bool | NaN

text \<open>
  A \<^verbatim>\<open>dict\<close> is the list of its items in insertion order: the order is what
  \<^verbatim>\<open>reversed\<close> of a dict follows. Lookup takes the first item with the key.
\<close>

datatype json =
    JNull
  | JBool bool
  | JInt int
  | JFloat pyfloat
  | JStr string
  | JArr "json list"
  | JObj "(string \<times> json) list"

text \<open>\<^verbatim>\<open>d.get(key, default)\<close>; \<^verbatim>\<open>d.get(key)\<close> is \<open>dict_get d key JNull\<close>.\<close>

definition dict_get :: "(string \<times> json) list \<Rightarrow> string \<Rightarrow> json \<Rightarrow> json" where
  "dict_get d key dflt = (case map_of d key of None \<Rightarrow> dflt | Some v \<Rightarrow> v)"

text \<open>Truth value testing, as \<^verbatim>\<open>not user_text\<close> applies it.\<close>

fun float_truthy :: "pyfloat \<Rightarrow> bool" where
  "float_truthy (Finite s m e) = (m \<noteq> 0)"
| "float_truthy (Infinity s) = True"
| "float_truthy NaN = True"

fun truthy :: "json \<Rightarrow> bool" where
  "truthy JNull = False"
| "truthy (JBool b) = b"
| "truthy (JInt i) = (i \<noteq> 0)"
| "truthy (JFloat f) = float_truthy f"
| "truthy (JStr s) = (s \<noteq> [])"
| "truthy (JArr xs) = (xs \<noteq> [])"
| "truthy (JObj d) = (d \<noteq> [])"

subsection \<open>Exceptions\<close>

text \<open>
  The handler catches nothing, so an exception ends it. \<open>GraphError\<close> is whatever
  \<^verbatim>\<open>graph.ainvoke\<close> raises, by name.
\<close>

datatype exn = AttributeError | TypeError | ValidationError | ValueError | GraphError string

text \<open>
  \<^verbatim>\<open>reversed(transcript)\<close>: a list, a string and (from Python 3.8 on) a dict are
  reversible, a dict by its keys; \<^verbatim>\<open>None\<close>, a bool and a number are not.
\<close>

fun reversed :: "json \<Rightarrow> exn + json list" where
  "reversed (JArr xs) = Inr (rev xs)"
| "reversed (JStr s) = Inr (map (\<lambda>c. JStr [c]) (rev s))"
| "reversed (JObj d) = Inr (map (\<lambda>kv. JStr (fst kv)) (rev d))"
| "reversed JNull = Inl TypeError"
| "reversed (JBool b) = Inl TypeError"
| "reversed (JInt i) = Inl TypeError"
| "reversed (JFloat f) = Inl TypeError"

text \<open>
  \<^verbatim>\<open>agent_reply[:80]\<close>: a string and a list can be sliced, nothing else can (a dict
  raises as well: \<^verbatim>\<open>TypeError\<close> up to Python 3.11).
\<close>

fun slice80 :: "json \<Rightarrow> exn + json" where
  "slice80 (JStr s) = Inr (JStr (take 80 s))"
| "slice80 (JArr xs) = Inr (JArr (take 80 xs))"
| "slice80 JNull = Inl TypeError"
| "slice80 (JBool b) = Inl TypeError"
| "slice80 (JInt i) = Inl TypeError"
| "slice80 (JFloat f) = Inl TypeError"
| "slice80 (JObj d) = Inl TypeError"

subsection \<open>Messages, the graph and the world\<close>

text \<open>
  A message object has a \<^verbatim>\<open>type\<close> tag and may have a \<^verbatim>\<open>content\<close> attribute:
  \<open>msg_content m = None\<close> is \<^verbatim>\<open>hasattr(msg, "content")\<close> being false.
\<close>

datatype message = Message (msg_type: string) (msg_content: "json option")

text \<open>
  \<^verbatim>\<open>HumanMessage(content=c)\<close>: the message library declares the content of a message
  as a string or a list of strings and dicts, and its constructor raises a
  \<^verbatim>\<open>ValidationError\<close> for anything else: \<^verbatim>\<open>None\<close>, a bool, a number, a dict, a list
  with another kind of item.
\<close>

fun content_item :: "json \<Rightarrow> bool" where
  "content_item (JStr s) = True"
| "content_item (JObj d) = True"
| "content_item JNull = False"
| "content_item (JBool b) = False"
| "content_item (JInt i) = False"
| "content_item (JFloat f) = False"
| "content_item (JArr xs) = False"

fun HumanMessage :: "json \<Rightarrow> exn + message" where
  "HumanMessage (JStr s) = Inr (Message ''human'' (Some (JStr s)))"
| "HumanMessage (JArr xs) =
     (if list_all content_item xs then Inr (Message ''human'' (Some (JArr xs)))
      else Inl ValidationError)"
| "HumanMessage JNull = Inl ValidationError"
| "HumanMessage (JBool b) = Inl ValidationError"
| "HumanMessage (JInt i) = Inl ValidationError"
| "HumanMessage (JFloat f) = Inl ValidationError"
| "HumanMessage (JObj d) = Inl ValidationError"

record input_state =
  messages :: "message list"
  call_id :: json

record config =
  thread_id :: json

text \<open>Of the state \<^verbatim>\<open>graph.ainvoke\<close> returns, the handler reads the key \<^verbatim>\<open>"messages"\<close> only.\<close>

record graph_result =
  result_messages :: "message list option"

text \<open>
  The graph keeps its checkpoints between requests: \<^verbatim>\<open>ainvoke\<close> is a function of the
  graph's state \<open>'g\<close>, returning the new state with its result or its exception.
\<close>

type_synonym 'g ainvoke = "'g \<Rightarrow> input_state \<Rightarrow> config \<Rightarrow> (exn + graph_result) \<times> 'g"

datatype log_record = Webhook_received json json | Responding json json

record 'g world =
  graph :: 'g
  invoked :: "(input_state \<times> config) list"
  log :: "log_record list"

definition logger_info :: "log_record \<Rightarrow> 'g world \<Rightarrow> 'g world" where
  "logger_info r w = w\<lparr>log := log w @ [r]\<rparr>"

text \<open>
  \<^verbatim>\<open>await graph.ainvoke(input_state, config=config)\<close>: the call is recorded in
  \<open>invoked\<close>, whatever its outcome.
\<close>

definition graph_ainvoke ::
  "'g ainvoke \<Rightarrow> input_state \<Rightarrow> config \<Rightarrow> 'g world \<Rightarrow> (exn + graph_result) \<times> 'g world" where
  "graph_ainvoke ainvoke inp cfg w =
     (case ainvoke (graph w) inp cfg of
        (r, g') \<Rightarrow> (r, w\<lparr>graph := g', invoked := invoked w @ [(inp, cfg)]\<rparr>))"

text \<open>
  \<^verbatim>\<open>JSONResponse(d)\<close> renders its body at once, with \<^verbatim>\<open>json.dumps(d, allow_nan=False)\<close>:
  a float that is infinite or not a number, anywhere in \<open>d\<close>, raises a \<^verbatim>\<open>ValueError\<close>.
  \<open>Response d\<close> is the response object with the body \<open>d\<close>.
\<close>

fun float_finite :: "pyfloat \<Rightarrow> bool" where
  "float_finite (Finite s m e) = True"
| "float_finite (Infinity s) = False"
| "float_finite NaN = False"

fun json_finite :: "json \<Rightarrow> bool" where
  "json_finite JNull = True"
| "json_finite (JBool b) = True"
| "json_finite (JInt i) = True"
| "json_finite (JFloat f) = float_finite f"
| "json_finite (JStr s) = True"
| "json_finite (JArr xs) = (\<forall>x \<in> set xs. json_finite x)"
| "json_finite (JObj d) = (\<forall>kv \<in> set d. json_finite (snd kv))"

datatype response = Response json

definition JSONResponse :: "json \<Rightarrow> exn + response" where
  "JSONResponse d = (if json_finite d then Inr (Response d) else Inl ValueError)"

subsection \<open>The health check\<close>

text \<open>
  \<^verbatim>\<open>
  @app.get("/health")
  async def health():
      return {"status": "ok"}
  \<close>
\<close>

definition health :: "'g world \<Rightarrow> (exn + json) \<times> 'g world" where
  "health w = (Inr (JObj [(''status'', JStr ''ok'')]), w)"

subsection \<open>The webhook\<close>

text \<open>
  The first loop, over the reversed transcript:
  \<^verbatim>\<open>
  user_text = ""
  for turn in reversed(transcript):
      if turn.get("role") == "user":
          user_text = turn.get("content", "")
          break
  \<close>
  Only a dict has \<^verbatim>\<open>get\<close>.
\<close>

fun scan_turns :: "json list \<Rightarrow> exn + json" where
  "scan_turns [] = Inr (JStr '''')"
| "scan_turns (JObj turn # rest) =
     (if dict_get turn ''role'' JNull = JStr ''user''
      then Inr (dict_get turn ''content'' (JStr ''''))
      else scan_turns rest)"
| "scan_turns (turn # rest) = Inl AttributeError"

definition last_user_text :: "json \<Rightarrow> exn + json" where
  "last_user_text transcript =
     (case reversed transcript of
        Inl e \<Rightarrow> Inl e
      | Inr turns \<Rightarrow> scan_turns turns)"

text \<open>
  \<^verbatim>\<open>
  if not user_text:
      user_text = "Hola"
  \<close>
\<close>

definition greet_if_empty :: "json \<Rightarrow> json" where
  "greet_if_empty user_text = (if \<not> truthy user_text then JStr ''Hola'' else user_text)"

text \<open>
  The second loop, over the reversed messages of the result:
  \<^verbatim>\<open>
  agent_reply = ""
  for msg in reversed(result.get("messages", [])):
      if hasattr(msg, "content") and msg.type == "ai":
          agent_reply = msg.content
          break
  \<close>
\<close>

fun scan_messages :: "message list \<Rightarrow> json" where
  "scan_messages [] = JStr ''''"
| "scan_messages (msg # rest) =
     (case msg_content msg of
        None \<Rightarrow> scan_messages rest
      | Some c \<Rightarrow> if msg_type msg = ''ai'' then c else scan_messages rest)"

definition last_ai_content :: "graph_result \<Rightarrow> json" where
  "last_ai_content result =
     scan_messages (rev (case result_messages result of None \<Rightarrow> [] | Some ms \<Rightarrow> ms))"

text \<open>Lines 83 to 118 of \<^verbatim>\<open>main.py\<close>: what the handler does for an event it answers.\<close>

definition active_turn ::
  "message \<Rightarrow> 'g ainvoke \<Rightarrow> json \<Rightarrow> (string \<times> json) list \<Rightarrow> 'g world
     \<Rightarrow> (exn + response) \<times> 'g world" where
  "active_turn SYSTEM_PROMPT ainvoke cid body w =
     (case last_user_text (dict_get body ''transcript'' (JArr [])) of
        Inl e \<Rightarrow> (Inl e, w)
      | Inr utterance \<Rightarrow>
          (let user_text = greet_if_empty utterance;
               cfg = \<lparr>thread_id = cid\<rparr>
           in case HumanMessage user_text of
                Inl e \<Rightarrow> (Inl e, w)
              | Inr human \<Rightarrow>
                  (let inp = \<lparr>messages = [SYSTEM_PROMPT, human], call_id = cid\<rparr>
                   in case graph_ainvoke ainvoke inp cfg w of
                        (Inl e, w') \<Rightarrow> (Inl e, w')
                      | (Inr result, w') \<Rightarrow>
                          (let agent_reply = last_ai_content result
                           in case slice80 agent_reply of
                                Inl e \<Rightarrow> (Inl e, w')
                              | Inr shown \<Rightarrow>
                                  (JSONResponse (JObj
                                     [(''response_id'', cid),
                                      (''content'', agent_reply),
                                      (''content_complete'', JBool True),
                                      (''end_call'', JBool False)]),
                                   logger_info (Responding cid shown) w')))))"

text \<open>
  The handler. A body that is not a dict has no \<^verbatim>\<open>get\<close>. The test
  \<^verbatim>\<open>event in ("call_ended", "call_analyzed")\<close> compares by equality, and only a
  string equals a string.
\<close>

definition retell_webhook ::
  "message \<Rightarrow> 'g ainvoke \<Rightarrow> json \<Rightarrow> 'g world \<Rightarrow> (exn + response) \<times> 'g world" where
  "retell_webhook SYSTEM_PROMPT ainvoke request_json w =
     (case request_json of
        JObj body \<Rightarrow>
          (let cid = dict_get body ''call_id'' (JStr ''unknown'');
               event = dict_get body ''event'' (JStr '''');
               w1 = logger_info (Webhook_received cid event) w
           in if event = JStr ''call_ended'' \<or> event = JStr ''call_analyzed''
              then (JSONResponse (JObj [(''response_id'', cid), (''content'', JStr '''')]), w1)
              else active_turn SYSTEM_PROMPT ainvoke cid body w1)
      | _ \<Rightarrow> (Inl AttributeError, w))"

subsection \<open>A graph to run the handler on\<close>

text \<open>
  A stand-in for the compiled graph: it counts its invocations and answers every
  turn with one AI message after the messages it was given.
\<close>

definition demo_prompt :: message where
  "demo_prompt = Message ''system'' (Some (JStr ''Eres Omvyx''))"

definition demo_graph :: "nat ainvoke" where
  "demo_graph g inp cfg =
     (Inr \<lparr>result_messages = Some (messages inp @ [Message ''ai'' (Some (JStr ''Buenos dias''))])\<rparr>,
      Suc g)"

definition demo_world :: "nat world" where
  "demo_world = \<lparr>graph = 0, invoked = [], log = []\<rparr>"

section \<open>Properties\<close>

subsection \<open>Facts about the two loops and the two paths\<close>

text \<open>
  Turns that are dicts and not the user's are passed over by the first loop; messages
  not tagged \<^verbatim>\<open>"ai"\<close> are passed over by the second.
\<close>

lemma scan_turns_skip:
  "\<forall>t \<in> set later. \<exists>d. t = JObj d \<and> dict_get d ''role'' JNull \<noteq> JStr ''user''
   \<Longrightarrow> scan_turns (rev later @ rest) = scan_turns rest"
  by (induction later arbitrary: rest rule: rev_induct) auto


lemma last_user_text_found:
  assumes "dict_get turn ''role'' JNull = JStr ''user''"
    and "\<forall>t \<in> set later. \<exists>d. t = JObj d \<and> dict_get d ''role'' JNull \<noteq> JStr ''user''"
  shows "last_user_text (JArr (earlier @ JObj turn # later)) =
           Inr (dict_get turn ''content'' (JStr ''''))"
proof -
  have "scan_turns (rev later @ JObj turn # rev earlier) = scan_turns (JObj turn # rev earlier)"
    using assms(2) by (rule scan_turns_skip)
  then show ?thesis
    using assms(1) by (simp add: last_user_text_def)
qed


text \<open>The greeting is a string, so the message library accepts it.\<close>

lemma HumanMessage_greeting:
  "HumanMessage (greet_if_empty (JStr '''')) = Inr (Message ''human'' (Some (JStr ''Hola'')))"
  by (simp add: greet_if_empty_def)

text \<open>An event other than the two lifecycle events leads to \<open>active_turn\<close>.\<close>

lemma retell_webhook_active:
  assumes "dict_get body ''event'' (JStr '''') \<noteq> JStr ''call_ended''"
    and "dict_get body ''event'' (JStr '''') \<noteq> JStr ''call_analyzed''"
  shows "retell_webhook SYSTEM_PROMPT ainvoke (JObj body) w =
           active_turn SYSTEM_PROMPT ainvoke (dict_get body ''call_id'' (JStr ''unknown'')) body
             (logger_info (Webhook_received (dict_get body ''call_id'' (JStr ''unknown''))
                (dict_get body ''event'' (JStr ''''))) w)"
  using assms by (simp add: retell_webhook_def Let_def)

text \<open>The handler reads three keys of the body, each through \<open>dict_get\<close>.\<close>

lemma active_turn_transcript_only:
  assumes "map_of body' ''transcript'' = map_of body ''transcript''"
  shows "active_turn SYSTEM_PROMPT ainvoke cid body' w = active_turn SYSTEM_PROMPT ainvoke cid body w"
  using assms by (simp add: active_turn_def dict_get_def)

lemma retell_webhook_dict_get:
  assumes "dict_get body ''call_id'' (JStr ''unknown'') = dict_get body' ''call_id'' (JStr ''unknown'')"
    and "dict_get body ''event'' (JStr '''') = dict_get body' ''event'' (JStr '''')"
    and "dict_get body ''transcript'' (JArr []) = dict_get body' ''transcript'' (JArr [])"
  shows "retell_webhook SYSTEM_PROMPT ainvoke (JObj body) w =
         retell_webhook SYSTEM_PROMPT ainvoke (JObj body') w"
  using assms by (simp add: retell_webhook_def active_turn_def Let_def)

text \<open>
  Once the transcript has been scanned and the human message built, the graph is
  invoked, once.
\<close>

lemma active_turn_invoked:
  assumes "last_user_text (dict_get body ''transcript'' (JArr [])) = Inr utterance"
    and "HumanMessage (greet_if_empty utterance) = Inr human"
  shows "invoked (snd (active_turn SYSTEM_PROMPT ainvoke cid body w)) =
           invoked w @ [(\<lparr>messages = [SYSTEM_PROMPT, human], call_id = cid\<rparr>,
                         \<lparr>thread_id = cid\<rparr>)]"
  using assms
  by (simp add: active_turn_def graph_ainvoke_def logger_info_def Let_def
      split: prod.splits sum.splits)

lemma retell_webhook_invoked:
  assumes "dict_get body ''event'' (JStr '''') \<noteq> JStr ''call_ended''"
    and "dict_get body ''event'' (JStr '''') \<noteq> JStr ''call_analyzed''"
    and "last_user_text (dict_get body ''transcript'' (JArr [])) = Inr utterance"
    and "HumanMessage (greet_if_empty utterance) = Inr human"
  shows "invoked (snd (retell_webhook SYSTEM_PROMPT ainvoke (JObj body) w)) =
           invoked w @ [(\<lparr>messages = [SYSTEM_PROMPT, human],
                            call_id = dict_get body ''call_id'' (JStr ''unknown'')\<rparr>,
                         \<lparr>thread_id = dict_get body ''call_id'' (JStr ''unknown'')\<rparr>)]"
  by (simp add: retell_webhook_active [OF assms(1,2)] active_turn_invoked [OF assms(3,4)]
      logger_info_def)

text \<open>The log is written, never read.\<close>

lemma active_turn_log:
  "fst (active_turn SYSTEM_PROMPT ainvoke cid body (w\<lparr>log := l\<rparr>)) =
     fst (active_turn SYSTEM_PROMPT ainvoke cid body w) \<and>
   graph (snd (active_turn SYSTEM_PROMPT ainvoke cid body (w\<lparr>log := l\<rparr>))) =
     graph (snd (active_turn SYSTEM_PROMPT ainvoke cid body w)) \<and>
   invoked (snd (active_turn SYSTEM_PROMPT ainvoke cid body (w\<lparr>log := l\<rparr>))) =
     invoked (snd (active_turn SYSTEM_PROMPT ainvoke cid body w))"
  by (simp add: active_turn_def graph_ainvoke_def logger_info_def Let_def
      split: prod.splits sum.splits)

text \<open>When \<open>active_turn\<close> answers, and when it raises.\<close>

lemma active_turn_Inr:
  "fst (active_turn SYSTEM_PROMPT ainvoke cid body w) = Inr resp \<longleftrightarrow>
     (\<exists>utterance human result g'.
        last_user_text (dict_get body ''transcript'' (JArr [])) = Inr utterance \<and>
        HumanMessage (greet_if_empty utterance) = Inr human \<and>
        ainvoke (graph w) \<lparr>messages = [SYSTEM_PROMPT, human], call_id = cid\<rparr>
          \<lparr>thread_id = cid\<rparr> = (Inr result, g') \<and>
        (\<exists>shown. slice80 (last_ai_content result) = Inr shown) \<and>
        json_finite cid \<and> json_finite (last_ai_content result) \<and>
        resp = Response (JObj
          [(''response_id'', cid),
           (''content'', last_ai_content result),
           (''content_complete'', JBool True),
           (''end_call'', JBool False)]))"
  by (auto simp: active_turn_def graph_ainvoke_def logger_info_def JSONResponse_def Let_def
      split: prod.splits sum.splits if_splits)

lemma active_turn_Inl:
  assumes "fst (active_turn SYSTEM_PROMPT ainvoke cid body w) = Inl e"
  shows "(\<exists>transcript. map_of body ''transcript'' = Some transcript \<and>
            (last_user_text transcript = Inl e \<or>
             (\<exists>utterance. last_user_text transcript = Inr utterance \<and>
                HumanMessage (greet_if_empty utterance) = Inl e))) \<or>
         (\<exists>inp cfg g'. ainvoke (graph w) inp cfg = (Inl e, g')) \<or>
         (\<exists>inp cfg result g'. ainvoke (graph w) inp cfg = (Inr result, g') \<and>
            (slice80 (last_ai_content result) = Inl e \<or>
             \<not> json_finite (last_ai_content result))) \<or>
         \<not> json_finite cid"
proof (cases "last_user_text (dict_get body ''transcript'' (JArr []))")
  case (Inl e')
  with assms have "e' = e"
    by (simp add: active_turn_def)
  with Inl have "\<exists>transcript. map_of body ''transcript'' = Some transcript \<and>
            last_user_text transcript = Inl e"
    by (cases "map_of body ''transcript''") (simp_all add: dict_get_def last_user_text_def)
  then show ?thesis by blast
next
  case scan: (Inr utterance)
  show ?thesis
  proof (cases "HumanMessage (greet_if_empty utterance)")
    case (Inl e')
    with assms scan have "e' = e"
      by (simp add: active_turn_def Let_def)
    with Inl scan have "\<exists>transcript. map_of body ''transcript'' = Some transcript \<and>
            last_user_text transcript = Inr utterance \<and>
            HumanMessage (greet_if_empty utterance) = Inl e"
      by (cases "map_of body ''transcript''")
        (auto simp: dict_get_def last_user_text_def greet_if_empty_def)
    then show ?thesis by blast
  next
    case human: (Inr human)
    define inp where "inp = \<lparr>messages = [SYSTEM_PROMPT, human], call_id = cid\<rparr>"
    obtain r g' where run: "ainvoke (graph w) inp \<lparr>thread_id = cid\<rparr> = (r, g')"
      by (cases "ainvoke (graph w) inp \<lparr>thread_id = cid\<rparr>") blast
    show ?thesis
    proof (cases r)
      case (Inl e')
      with assms scan human run have "e' = e"
        by (simp add: active_turn_def graph_ainvoke_def inp_def Let_def)
      with Inl run show ?thesis by blast
    next
      case r: (Inr result)
      with assms scan human run
      have "slice80 (last_ai_content result) = Inl e \<or>
            \<not> json_finite (last_ai_content result) \<or> \<not> json_finite cid"
        by (auto simp: active_turn_def graph_ainvoke_def inp_def JSONResponse_def Let_def
            split: sum.splits if_splits)
      with r run show ?thesis by blast
    qed
  qed
qed

subsection \<open>Lifecycle events that need no answer\<close>




subsection \<open>What the graph is given\<close>

text \<open>
  C2, as amended. On an event the handler answers, let the transcript be a list with a
  turn of role \<^verbatim>\<open>"user"\<close> after which only turns of another role follow. If the content
  of that turn is a string that is not empty, the graph is invoked once, with the system
  prompt and a human message of exactly that content, under the call id as thread id.
  The turns before it play no part. (For an empty content see C3 and the
  counterexample below.)
\<close>

theorem last_user_turn_forwarded:
  assumes "dict_get body ''event'' (JStr '''') \<noteq> JStr ''call_ended''"
    and "dict_get body ''event'' (JStr '''') \<noteq> JStr ''call_analyzed''"
    and "map_of body ''transcript'' = Some (JArr (earlier @ JObj turn # later))"
    and "map_of turn ''role'' = Some (JStr ''user'')"
    and "\<forall>t \<in> set later. \<exists>d. t = JObj d \<and> dict_get d ''role'' JNull \<noteq> JStr ''user''"
    and "map_of turn ''content'' = Some (JStr utterance)"
    and "utterance \<noteq> []"
  shows "invoked (snd (retell_webhook SYSTEM_PROMPT ainvoke (JObj body) w)) =
           invoked w @ [(\<lparr>messages = [SYSTEM_PROMPT, Message ''human'' (Some (JStr utterance))],
                            call_id = dict_get body ''call_id'' (JStr ''unknown'')\<rparr>,
                         \<lparr>thread_id = dict_get body ''call_id'' (JStr ''unknown'')\<rparr>)]"
proof -
  have role: "dict_get turn ''role'' JNull = JStr ''user''"
    using assms(4) by (simp add: dict_get_def)
  have scan: "last_user_text (dict_get body ''transcript'' (JArr [])) = Inr (JStr utterance)"
    using last_user_text_found [OF role assms(5), of earlier] assms(3,6)
    by (simp add: dict_get_def)
  have human: "HumanMessage (greet_if_empty (JStr utterance)) =
                 Inr (Message ''human'' (Some (JStr utterance)))"
    using assms(7) by (simp add: greet_if_empty_def)
  from retell_webhook_invoked [OF assms(1,2) scan human]
  show ?thesis .
qed

text \<open>Two user turns: the later one, \<^verbatim>\<open>"manana"\<close>, is what the graph is given.\<close>

theorem last_user_turn_forwarded_witness:
  "invoked (snd (retell_webhook demo_prompt demo_graph
      (JObj [(''call_id'', JStr ''abc''), (''event'', JStr ''''),
             (''transcript'', JArr
                [JObj [(''role'', JStr ''user''), (''content'', JStr ''una cita'')],
                 JObj [(''role'', JStr ''agent''), (''content'', JStr ''Para cuando?'')],
                 JObj [(''role'', JStr ''user''), (''content'', JStr ''manana'')],
                 JObj [(''role'', JStr ''agent''), (''content'', JStr ''Un momento'')]])])
      demo_world)) =
   [(\<lparr>messages = [demo_prompt, Message ''human'' (Some (JStr ''manana''))],
       call_id = JStr ''abc''\<rparr>,
     \<lparr>thread_id = JStr ''abc''\<rparr>)]"
proof -
  let ?earlier = "[JObj [(''role'', JStr ''user''), (''content'', JStr ''una cita'')],
                   JObj [(''role'', JStr ''agent''), (''content'', JStr ''Para cuando?'')]]"
  let ?turn = "[(''role'', JStr ''user''), (''content'', JStr ''manana'')]"
  let ?later = "[JObj [(''role'', JStr ''agent''), (''content'', JStr ''Un momento'')]]"
  let ?body = "[(''call_id'', JStr ''abc''), (''event'', JStr ''''),
                (''transcript'', JArr (?earlier @ JObj ?turn # ?later))]"
  have ev: "dict_get ?body ''event'' (JStr '''') \<noteq> JStr ''call_ended''"
      "dict_get ?body ''event'' (JStr '''') \<noteq> JStr ''call_analyzed''"
    by (simp_all add: dict_get_def)
  have tr: "map_of ?body ''transcript'' = Some (JArr (?earlier @ JObj ?turn # ?later))"
    by simp
  have role: "map_of ?turn ''role'' = Some (JStr ''user'')"
    by simp
  have later: "\<forall>t \<in> set ?later. \<exists>d. t = JObj d \<and> dict_get d ''role'' JNull \<noteq> JStr ''user''"
    by (simp add: dict_get_def)
  have content: "map_of ?turn ''content'' = Some (JStr ''manana'')"
    by simp
  have nonempty: "''manana'' \<noteq> []"
    by simp
  show ?thesis
    using last_user_turn_forwarded [OF ev tr role later content nonempty,
        of demo_prompt demo_graph demo_world]
    by (simp add: dict_get_def demo_world_def)
qed

text \<open>
  C2 as stated fails where the last user turn has an empty content: the graph is given
  \<^verbatim>\<open>"Hola"\<close>, which is not the content of that turn.
\<close>

theorem last_user_turn_empty_counterexample:
  "invoked (snd (retell_webhook demo_prompt demo_graph
      (JObj [(''call_id'', JStr ''abc''), (''event'', JStr ''call_started''),
             (''transcript'', JArr
                [JObj [(''role'', JStr ''user''), (''content'', JStr ''una cita'')],
                 JObj [(''role'', JStr ''agent''), (''content'', JStr ''Para cuando?'')],
                 JObj [(''role'', JStr ''user''), (''content'', JStr '''')]])])
      demo_world)) =
   [(\<lparr>messages = [demo_prompt, Message ''human'' (Some (JStr ''Hola''))],
       call_id = JStr ''abc''\<rparr>,
     \<lparr>thread_id = JStr ''abc''\<rparr>)]
   \<and> Message ''human'' (Some (JStr ''Hola'')) \<noteq>
       Message ''human''
         (Some (dict_get [(''role'', JStr ''user''), (''content'', JStr '''')] ''content'' (JStr '''')))"
  by (simp add: retell_webhook_def active_turn_def last_user_text_def greet_if_empty_def
      graph_ainvoke_def logger_info_def dict_get_def demo_graph_def demo_world_def
      last_ai_content_def JSONResponse_def Let_def)

text \<open>
  C3. On an event the handler answers, if the last turn of role \<^verbatim>\<open>"user"\<close> has no
  \<^verbatim>\<open>content\<close> key or has the empty string as content, the graph is given \<^verbatim>\<open>"Hola"\<close>:
  the greeting stands in for an empty utterance, not only for a missing user turn.
\<close>

theorem empty_user_text_greets:
  assumes "dict_get body ''event'' (JStr '''') \<noteq> JStr ''call_ended''"
    and "dict_get body ''event'' (JStr '''') \<noteq> JStr ''call_analyzed''"
    and "map_of body ''transcript'' = Some (JArr (earlier @ JObj turn # later))"
    and "map_of turn ''role'' = Some (JStr ''user'')"
    and "\<forall>t \<in> set later. \<exists>d. t = JObj d \<and> dict_get d ''role'' JNull \<noteq> JStr ''user''"
    and "map_of turn ''content'' = None \<or> map_of turn ''content'' = Some (JStr '''')"
  shows "invoked (snd (retell_webhook SYSTEM_PROMPT ainvoke (JObj body) w)) =
           invoked w @ [(\<lparr>messages = [SYSTEM_PROMPT, Message ''human'' (Some (JStr ''Hola''))],
                            call_id = dict_get body ''call_id'' (JStr ''unknown'')\<rparr>,
                         \<lparr>thread_id = dict_get body ''call_id'' (JStr ''unknown'')\<rparr>)]"
proof -
  have role: "dict_get turn ''role'' JNull = JStr ''user''"
    using assms(4) by (simp add: dict_get_def)
  have scan: "last_user_text (dict_get body ''transcript'' (JArr [])) = Inr (JStr '''')"
    using last_user_text_found [OF role assms(5), of earlier] assms(3,6)
    by (auto simp: dict_get_def)
  from retell_webhook_invoked [OF assms(1,2) scan HumanMessage_greeting]
  show ?thesis .
qed

text \<open>A user turn without a \<^verbatim>\<open>content\<close> key.\<close>

theorem empty_user_text_greets_witness:
  "invoked (snd (retell_webhook demo_prompt demo_graph
      (JObj [(''call_id'', JStr ''abc''), (''event'', JStr ''call_started''),
             (''transcript'', JArr
                [JObj [(''role'', JStr ''agent''), (''content'', JStr ''Diga'')],
                 JObj [(''role'', JStr ''user'')]])])
      demo_world)) =
   [(\<lparr>messages = [demo_prompt, Message ''human'' (Some (JStr ''Hola''))],
       call_id = JStr ''abc''\<rparr>,
     \<lparr>thread_id = JStr ''abc''\<rparr>)]"
proof -
  let ?earlier = "[JObj [(''role'', JStr ''agent''), (''content'', JStr ''Diga'')]]"
  let ?turn = "[(''role'', JStr ''user'')]"
  let ?body = "[(''call_id'', JStr ''abc''), (''event'', JStr ''call_started''),
                (''transcript'', JArr (?earlier @ JObj ?turn # []))]"
  have ev: "dict_get ?body ''event'' (JStr '''') \<noteq> JStr ''call_ended''"
      "dict_get ?body ''event'' (JStr '''') \<noteq> JStr ''call_analyzed''"
    by (simp_all add: dict_get_def)
  have tr: "map_of ?body ''transcript'' = Some (JArr (?earlier @ JObj ?turn # []))"
    by simp
  have role: "map_of ?turn ''role'' = Some (JStr ''user'')"
    by simp
  have later: "\<forall>t \<in> set []. \<exists>d. t = JObj d \<and> dict_get d ''role'' JNull \<noteq> JStr ''user''"
    by simp
  have content: "map_of ?turn ''content'' = None \<or> map_of ?turn ''content'' = Some (JStr '''')"
    by simp
  show ?thesis
    using empty_user_text_greets [OF ev tr role later content,
        of demo_prompt demo_graph demo_world]
    by (simp add: dict_get_def demo_world_def)
qed



subsection \<open>What the handler answers\<close>

text \<open>
  C5. On an event the handler answers, a response is returned exactly when the
  transcript can be scanned, the human message is accepted, the graph returns a
  result, the reply can be sliced for the log, and call id and reply can be rendered;
  the response then has the four keys \<^verbatim>\<open>response_id\<close> (the call id), \<^verbatim>\<open>content\<close> (the
  reply taken from the result), \<^verbatim>\<open>content_complete\<close> (true) and \<^verbatim>\<open>end_call\<close> (false),
  and no other. In every other case the handler raises and there is no response.
\<close>

theorem active_turn_response:
  assumes "dict_get body ''event'' (JStr '''') \<noteq> JStr ''call_ended''"
    and "dict_get body ''event'' (JStr '''') \<noteq> JStr ''call_analyzed''"
  shows "fst (retell_webhook SYSTEM_PROMPT ainvoke (JObj body) w) = Inr resp \<longleftrightarrow>
     (\<exists>utterance human result g'.
        last_user_text (dict_get body ''transcript'' (JArr [])) = Inr utterance \<and>
        HumanMessage (greet_if_empty utterance) = Inr human \<and>
        ainvoke (graph w)
          \<lparr>messages = [SYSTEM_PROMPT, human],
            call_id = dict_get body ''call_id'' (JStr ''unknown'')\<rparr>
          \<lparr>thread_id = dict_get body ''call_id'' (JStr ''unknown'')\<rparr> = (Inr result, g') \<and>
        (\<exists>shown. slice80 (last_ai_content result) = Inr shown) \<and>
        json_finite (dict_get body ''call_id'' (JStr ''unknown'')) \<and>
        json_finite (last_ai_content result) \<and>
        resp = Response (JObj
          [(''response_id'', dict_get body ''call_id'' (JStr ''unknown'')),
           (''content'', last_ai_content result),
           (''content_complete'', JBool True),
           (''end_call'', JBool False)]))"
  by (simp add: retell_webhook_active [OF assms] active_turn_Inr logger_info_def)

text \<open>
  The request \<^verbatim>\<open>{"call_id": "abc", "event": "call_started", "transcript": []}\<close>.
\<close>

theorem active_turn_response_witness:
  "fst (retell_webhook demo_prompt demo_graph
      (JObj [(''call_id'', JStr ''abc''), (''event'', JStr ''call_started''),
             (''transcript'', JArr [])])
      demo_world) =
   Inr (Response (JObj
     [(''response_id'', JStr ''abc''),
      (''content'', JStr ''Buenos dias''),
      (''content_complete'', JBool True),
      (''end_call'', JBool False)]))"
proof -
  let ?body = "[(''call_id'', JStr ''abc''), (''event'', JStr ''call_started''),
                (''transcript'', JArr [])]"
  let ?human = "Message ''human'' (Some (JStr ''Hola''))"
  let ?result = "\<lparr>result_messages = Some
        [demo_prompt, ?human, Message ''ai'' (Some (JStr ''Buenos dias''))]\<rparr>"
  let ?resp = "Response (JObj
     [(''response_id'', dict_get ?body ''call_id'' (JStr ''unknown'')),
      (''content'', last_ai_content ?result),
      (''content_complete'', JBool True),
      (''end_call'', JBool False)])"
  have ev: "dict_get ?body ''event'' (JStr '''') \<noteq> JStr ''call_ended''"
      "dict_get ?body ''event'' (JStr '''') \<noteq> JStr ''call_analyzed''"
    by (simp_all add: dict_get_def)
  have scan: "last_user_text (dict_get ?body ''transcript'' (JArr [])) = Inr (JStr '''')"
    by (simp add: dict_get_def last_user_text_def)
  have run: "demo_graph (graph demo_world)
          \<lparr>messages = [demo_prompt, ?human],
            call_id = dict_get ?body ''call_id'' (JStr ''unknown'')\<rparr>
          \<lparr>thread_id = dict_get ?body ''call_id'' (JStr ''unknown'')\<rparr> = (Inr ?result, 1)"
    by (simp add: demo_graph_def demo_world_def)
  have slice: "\<exists>shown. slice80 (last_ai_content ?result) = Inr shown"
    by (simp add: last_ai_content_def)
  have finite: "json_finite (dict_get ?body ''call_id'' (JStr ''unknown''))"
      "json_finite (last_ai_content ?result)"
    by (simp_all add: dict_get_def last_ai_content_def)
  have "fst (retell_webhook demo_prompt demo_graph (JObj ?body) demo_world) = Inr ?resp"
    using active_turn_response [OF ev, of demo_prompt demo_graph demo_world ?resp]
      scan HumanMessage_greeting run slice finite by blast
  then show ?thesis
    by (simp add: dict_get_def last_ai_content_def)
qed

text \<open>
  C6, as amended. Whenever the handler returns a response, the request body is a dict
  and the \<^verbatim>\<open>response_id\<close> of the response is the \<^verbatim>\<open>call_id\<close> of the body as it came, or
  \<^verbatim>\<open>"unknown"\<close> when the body has no \<^verbatim>\<open>call_id\<close> key. (A body may itself carry the call id
  \<^verbatim>\<open>"unknown"\<close>: see the counterexample below.)
\<close>

theorem response_id_echoes_call_id:
  assumes "fst (retell_webhook SYSTEM_PROMPT ainvoke request_json w) = Inr resp"
  shows "\<exists>body fields. request_json = JObj body \<and> resp = Response (JObj fields) \<and>
           map_of fields ''response_id'' =
             Some (case map_of body ''call_id'' of None \<Rightarrow> JStr ''unknown'' | Some c \<Rightarrow> c)"
proof (cases request_json)
  case (JObj body)
  show ?thesis
  proof (cases "dict_get body ''event'' (JStr '''') = JStr ''call_ended'' \<or>
                dict_get body ''event'' (JStr '''') = JStr ''call_analyzed''")
    case True
    with assms JObj show ?thesis
      by (auto simp: retell_webhook_def JSONResponse_def Let_def dict_get_def split: if_splits)
  next
    case False
    then have "fst (active_turn SYSTEM_PROMPT ainvoke (dict_get body ''call_id'' (JStr ''unknown'')) body
             (logger_info (Webhook_received (dict_get body ''call_id'' (JStr ''unknown''))
                (dict_get body ''event'' (JStr ''''))) w)) = Inr resp"
      using assms JObj by (simp add: retell_webhook_active)
    then show ?thesis
      using JObj by (auto simp: active_turn_Inr dict_get_def)
  qed
qed (use assms in \<open>simp_all add: retell_webhook_def\<close>)

text \<open>A call id that is given, and a body without one.\<close>

theorem response_id_echoes_call_id_witness:
  "(\<exists>fields.
      fst (retell_webhook demo_prompt demo_graph
        (JObj [(''event'', JStr ''call_started''), (''call_id'', JStr ''c-17'')]) demo_world) =
        Inr (Response (JObj fields)) \<and>
      map_of fields ''response_id'' = Some (JStr ''c-17''))
   \<and> (\<exists>fields.
      fst (retell_webhook demo_prompt demo_graph
        (JObj [(''event'', JStr ''call_ended'')]) demo_world) =
        Inr (Response (JObj fields)) \<and>
      map_of fields ''response_id'' = Some (JStr ''unknown''))"
proof -
  let ?given = "[(''event'', JStr ''call_started''), (''call_id'', JStr ''c-17'')]"
  let ?absent = "[(''event'', JStr ''call_ended'')]"
  have given: "fst (retell_webhook demo_prompt demo_graph (JObj ?given) demo_world) =
     Inr (Response (JObj
       [(''response_id'', JStr ''c-17''),
        (''content'', JStr ''Buenos dias''),
        (''content_complete'', JBool True),
        (''end_call'', JBool False)]))"
    by (simp add: retell_webhook_def active_turn_def last_user_text_def greet_if_empty_def
      graph_ainvoke_def logger_info_def dict_get_def demo_graph_def demo_world_def
      last_ai_content_def JSONResponse_def Let_def)
  have absent: "fst (retell_webhook demo_prompt demo_graph (JObj ?absent) demo_world) =
     Inr (Response (JObj [(''response_id'', JStr ''unknown''), (''content'', JStr '''')]))"
    by (simp add: retell_webhook_def dict_get_def logger_info_def JSONResponse_def Let_def)
  from response_id_echoes_call_id [OF given] given
  have first: "\<exists>fields.
      fst (retell_webhook demo_prompt demo_graph (JObj ?given) demo_world) =
        Inr (Response (JObj fields)) \<and>
      map_of fields ''response_id'' = Some (JStr ''c-17'')"
    by simp
  from response_id_echoes_call_id [OF absent] absent
  have second: "\<exists>fields.
      fst (retell_webhook demo_prompt demo_graph (JObj ?absent) demo_world) =
        Inr (Response (JObj fields)) \<and>
      map_of fields ''response_id'' = Some (JStr ''unknown'')"
    by simp
  from first second show ?thesis
    by blast
qed

text \<open>
  C6 as stated fails in one direction: the \<^verbatim>\<open>response_id\<close> can be \<^verbatim>\<open>"unknown"\<close> although
  the body has a \<^verbatim>\<open>call_id\<close> key, namely when that is the call id the caller sent.
\<close>

theorem sentinel_sent_by_caller_counterexample:
  "map_of [(''call_id'', JStr ''unknown''), (''event'', JStr ''call_ended'')] ''call_id'' \<noteq> None
   \<and> fst (retell_webhook demo_prompt demo_graph
        (JObj [(''call_id'', JStr ''unknown''), (''event'', JStr ''call_ended'')]) demo_world) =
      Inr (Response (JObj [(''response_id'', JStr ''unknown''), (''content'', JStr '''')]))"
  by (simp add: retell_webhook_def dict_get_def logger_info_def JSONResponse_def Let_def)



subsection \<open>Missing keys and other events\<close>

text \<open>
  C8. A body without \<^verbatim>\<open>call_id\<close> is handled as the same body with \<^verbatim>\<open>call_id\<close>
  \<^verbatim>\<open>"unknown"\<close>, one without \<^verbatim>\<open>event\<close> as with the event \<^verbatim>\<open>""\<close>, one without
  \<^verbatim>\<open>transcript\<close> as with the transcript \<^verbatim>\<open>[]\<close>. A missing key is never why the handler
  raises. When it raises on a dict, the cause is a key that is present or the graph:
  a transcript that is present could not be scanned or gave a text the human message
  does not accept; or a call id that is present cannot be rendered; or the graph
  raised; or the reply of the graph could not be sliced or rendered. With all three
  keys missing and a graph that answers with such a reply, the handler returns the
  four-key response for the call id \<^verbatim>\<open>"unknown"\<close>, having given the graph \<^verbatim>\<open>"Hola"\<close>.
\<close>

theorem missing_fields_default:
  "(map_of body ''call_id'' = None \<longrightarrow>
      retell_webhook SYSTEM_PROMPT ainvoke (JObj body) w =
      retell_webhook SYSTEM_PROMPT ainvoke (JObj ((''call_id'', JStr ''unknown'') # body)) w) \<and>
   (map_of body ''event'' = None \<longrightarrow>
      retell_webhook SYSTEM_PROMPT ainvoke (JObj body) w =
      retell_webhook SYSTEM_PROMPT ainvoke (JObj ((''event'', JStr '''') # body)) w) \<and>
   (map_of body ''transcript'' = None \<longrightarrow>
      retell_webhook SYSTEM_PROMPT ainvoke (JObj body) w =
      retell_webhook SYSTEM_PROMPT ainvoke (JObj ((''transcript'', JArr []) # body)) w) \<and>
   (\<forall>e. fst (retell_webhook SYSTEM_PROMPT ainvoke (JObj body) w) = Inl e \<longrightarrow>
      (\<exists>transcript. map_of body ''transcript'' = Some transcript \<and>
         (last_user_text transcript = Inl e \<or>
          (\<exists>utterance. last_user_text transcript = Inr utterance \<and>
             HumanMessage (greet_if_empty utterance) = Inl e))) \<or>
      (\<exists>c. map_of body ''call_id'' = Some c \<and> \<not> json_finite c) \<or>
      (\<exists>inp cfg g'. ainvoke (graph w) inp cfg = (Inl e, g')) \<or>
      (\<exists>inp cfg result g'. ainvoke (graph w) inp cfg = (Inr result, g') \<and>
         (slice80 (last_ai_content result) = Inl e \<or>
          \<not> json_finite (last_ai_content result)))) \<and>
   (\<forall>result g' shown.
      map_of body ''call_id'' = None \<and> map_of body ''event'' = None \<and>
      map_of body ''transcript'' = None \<and>
      ainvoke (graph w)
        \<lparr>messages = [SYSTEM_PROMPT, Message ''human'' (Some (JStr ''Hola''))],
          call_id = JStr ''unknown''\<rparr>
        \<lparr>thread_id = JStr ''unknown''\<rparr> = (Inr result, g') \<and>
      slice80 (last_ai_content result) = Inr shown \<and>
      json_finite (last_ai_content result) \<longrightarrow>
      retell_webhook SYSTEM_PROMPT ainvoke (JObj body) w =
        (Inr (Response (JObj
           [(''response_id'', JStr ''unknown''),
            (''content'', last_ai_content result),
            (''content_complete'', JBool True),
            (''end_call'', JBool False)])),
         w\<lparr>graph := g',
           invoked := invoked w @
             [(\<lparr>messages = [SYSTEM_PROMPT, Message ''human'' (Some (JStr ''Hola''))],
                 call_id = JStr ''unknown''\<rparr>, \<lparr>thread_id = JStr ''unknown''\<rparr>)],
           log := log w @
             [Webhook_received (JStr ''unknown'') (JStr ''''),
              Responding (JStr ''unknown'') shown]\<rparr>))"
proof (intro conjI allI impI)
  assume "map_of body ''call_id'' = None"
  then show "retell_webhook SYSTEM_PROMPT ainvoke (JObj body) w =
      retell_webhook SYSTEM_PROMPT ainvoke (JObj ((''call_id'', JStr ''unknown'') # body)) w"
    by (intro retell_webhook_dict_get) (simp_all add: dict_get_def)
next
  assume "map_of body ''event'' = None"
  then show "retell_webhook SYSTEM_PROMPT ainvoke (JObj body) w =
      retell_webhook SYSTEM_PROMPT ainvoke (JObj ((''event'', JStr '''') # body)) w"
    by (intro retell_webhook_dict_get) (simp_all add: dict_get_def)
next
  assume "map_of body ''transcript'' = None"
  then show "retell_webhook SYSTEM_PROMPT ainvoke (JObj body) w =
      retell_webhook SYSTEM_PROMPT ainvoke (JObj ((''transcript'', JArr []) # body)) w"
    by (intro retell_webhook_dict_get) (simp_all add: dict_get_def)
next
  fix e
  let ?cid = "dict_get body ''call_id'' (JStr ''unknown'')"
  let ?goal = "(\<exists>transcript. map_of body ''transcript'' = Some transcript \<and>
         (last_user_text transcript = Inl e \<or>
          (\<exists>utterance. last_user_text transcript = Inr utterance \<and>
             HumanMessage (greet_if_empty utterance) = Inl e))) \<or>
      (\<exists>c. map_of body ''call_id'' = Some c \<and> \<not> json_finite c) \<or>
      (\<exists>inp cfg g'. ainvoke (graph w) inp cfg = (Inl e, g')) \<or>
      (\<exists>inp cfg result g'. ainvoke (graph w) inp cfg = (Inr result, g') \<and>
         (slice80 (last_ai_content result) = Inl e \<or>
          \<not> json_finite (last_ai_content result)))"
  assume failed: "fst (retell_webhook SYSTEM_PROMPT ainvoke (JObj body) w) = Inl e"
  have present: "\<exists>c. map_of body ''call_id'' = Some c \<and> \<not> json_finite c"
    if "\<not> json_finite ?cid"
    using that by (cases "map_of body ''call_id''") (simp_all add: dict_get_def)
  show ?goal
  proof (cases "dict_get body ''event'' (JStr '''') = JStr ''call_ended'' \<or>
                dict_get body ''event'' (JStr '''') = JStr ''call_analyzed''")
    case True
    with failed have "\<not> json_finite ?cid"
      by (auto simp: retell_webhook_def JSONResponse_def Let_def split: if_splits)
    then show ?thesis
      using present by blast
  next
    case False
    then have active: "dict_get body ''event'' (JStr '''') \<noteq> JStr ''call_ended''"
        "dict_get body ''event'' (JStr '''') \<noteq> JStr ''call_analyzed''"
      by simp_all
    from failed have "fst (active_turn SYSTEM_PROMPT ainvoke ?cid body
               (logger_info (Webhook_received ?cid (dict_get body ''event'' (JStr ''''))) w)) = Inl e"
      by (simp add: retell_webhook_active [OF active])
    from active_turn_Inl [OF this] present show ?thesis
      by (auto simp: logger_info_def)
  qed
next
  fix result g' shown
  assume "map_of body ''call_id'' = None \<and> map_of body ''event'' = None \<and>
      map_of body ''transcript'' = None \<and>
      ainvoke (graph w)
        \<lparr>messages = [SYSTEM_PROMPT, Message ''human'' (Some (JStr ''Hola''))],
          call_id = JStr ''unknown''\<rparr>
        \<lparr>thread_id = JStr ''unknown''\<rparr> = (Inr result, g') \<and>
      slice80 (last_ai_content result) = Inr shown \<and>
      json_finite (last_ai_content result)"
  then show "retell_webhook SYSTEM_PROMPT ainvoke (JObj body) w =
        (Inr (Response (JObj
           [(''response_id'', JStr ''unknown''),
            (''content'', last_ai_content result),
            (''content_complete'', JBool True),
            (''end_call'', JBool False)])),
         w\<lparr>graph := g',
           invoked := invoked w @
             [(\<lparr>messages = [SYSTEM_PROMPT, Message ''human'' (Some (JStr ''Hola''))],
                 call_id = JStr ''unknown''\<rparr>, \<lparr>thread_id = JStr ''unknown''\<rparr>)],
           log := log w @
             [Webhook_received (JStr ''unknown'') (JStr ''''),
              Responding (JStr ''unknown'') shown]\<rparr>)"
    by (simp add: retell_webhook_def active_turn_def dict_get_def last_user_text_def
        greet_if_empty_def graph_ainvoke_def logger_info_def JSONResponse_def Let_def)
qed

text \<open>The request \<^verbatim>\<open>{}\<close>.\<close>

theorem missing_fields_default_witness:
  "retell_webhook demo_prompt demo_graph (JObj []) demo_world =
     (Inr (Response (JObj
        [(''response_id'', JStr ''unknown''),
         (''content'', JStr ''Buenos dias''),
         (''content_complete'', JBool True),
         (''end_call'', JBool False)])),
      \<lparr>graph = 1,
        invoked = [(\<lparr>messages = [demo_prompt, Message ''human'' (Some (JStr ''Hola''))],
                     call_id = JStr ''unknown''\<rparr>, \<lparr>thread_id = JStr ''unknown''\<rparr>)],
        log = [Webhook_received (JStr ''unknown'') (JStr ''''),
               Responding (JStr ''unknown'') (JStr ''Buenos dias'')]\<rparr>)"
proof -
  let ?human = "Message ''human'' (Some (JStr ''Hola''))"
  let ?result = "\<lparr>result_messages = Some
        [demo_prompt, ?human, Message ''ai'' (Some (JStr ''Buenos dias''))]\<rparr>"
  have h: "map_of ([] :: (string \<times> json) list) ''call_id'' = None \<and>
      map_of ([] :: (string \<times> json) list) ''event'' = None \<and>
      map_of ([] :: (string \<times> json) list) ''transcript'' = None \<and>
      demo_graph (graph demo_world)
        \<lparr>messages = [demo_prompt, ?human], call_id = JStr ''unknown''\<rparr>
        \<lparr>thread_id = JStr ''unknown''\<rparr> = (Inr ?result, 1) \<and>
      slice80 (last_ai_content ?result) = Inr (JStr ''Buenos dias'') \<and>
      json_finite (last_ai_content ?result)"
    by (simp add: demo_graph_def demo_world_def last_ai_content_def)
  have "retell_webhook demo_prompt demo_graph (JObj []) demo_world =
        (Inr (Response (JObj
           [(''response_id'', JStr ''unknown''),
            (''content'', last_ai_content ?result),
            (''content_complete'', JBool True),
            (''end_call'', JBool False)])),
         demo_world\<lparr>graph := 1,
           invoked := invoked demo_world @
             [(\<lparr>messages = [demo_prompt, ?human],
                 call_id = JStr ''unknown''\<rparr>, \<lparr>thread_id = JStr ''unknown''\<rparr>)],
           log := log demo_world @
             [Webhook_received (JStr ''unknown'') (JStr ''''),
              Responding (JStr ''unknown'') (JStr ''Buenos dias'')]\<rparr>)"
    using missing_fields_default [of "[]" demo_prompt demo_graph demo_world] h by blast
  then show ?thesis
    by (simp add: demo_world_def last_ai_content_def)
qed

text \<open>
  C9. Two bodies that differ in their \<^verbatim>\<open>event\<close> only, neither event being
  \<^verbatim>\<open>"call_ended"\<close> or \<^verbatim>\<open>"call_analyzed"\<close> (the key may be missing, and its value need not
  be a string), are handled alike: the same response or exception, the same
  invocations of the graph, the same state of the graph. (The log differs: it records
  the event.) Both take the active path. Once the transcript has been scanned and the
  human message accepted, the graph is invoked with it; and when the graph then
  returns a result whose reply can be sliced, and call id and reply can be rendered,
  both are answered with the four-key response. No response has another form.
\<close>

theorem other_events_alike:
  assumes "\<forall>k. k \<noteq> ''event'' \<longrightarrow> map_of body k = map_of body' k"
    and "dict_get body ''event'' (JStr '''') \<noteq> JStr ''call_ended''"
    and "dict_get body ''event'' (JStr '''') \<noteq> JStr ''call_analyzed''"
    and "dict_get body' ''event'' (JStr '''') \<noteq> JStr ''call_ended''"
    and "dict_get body' ''event'' (JStr '''') \<noteq> JStr ''call_analyzed''"
  shows "fst (retell_webhook SYSTEM_PROMPT ainvoke (JObj body) w) =
           fst (retell_webhook SYSTEM_PROMPT ainvoke (JObj body') w) \<and>
         graph (snd (retell_webhook SYSTEM_PROMPT ainvoke (JObj body) w)) =
           graph (snd (retell_webhook SYSTEM_PROMPT ainvoke (JObj body') w)) \<and>
         invoked (snd (retell_webhook SYSTEM_PROMPT ainvoke (JObj body) w)) =
           invoked (snd (retell_webhook SYSTEM_PROMPT ainvoke (JObj body') w)) \<and>
         (\<forall>utterance human.
            last_user_text (dict_get body ''transcript'' (JArr [])) = Inr utterance \<and>
            HumanMessage (greet_if_empty utterance) = Inr human \<longrightarrow>
            invoked (snd (retell_webhook SYSTEM_PROMPT ainvoke (JObj body) w)) =
              invoked w @
                [(\<lparr>messages = [SYSTEM_PROMPT, human],
                    call_id = dict_get body ''call_id'' (JStr ''unknown'')\<rparr>,
                  \<lparr>thread_id = dict_get body ''call_id'' (JStr ''unknown'')\<rparr>)]) \<and>
         (\<forall>utterance human result g' shown.
            last_user_text (dict_get body ''transcript'' (JArr [])) = Inr utterance \<and>
            HumanMessage (greet_if_empty utterance) = Inr human \<and>
            ainvoke (graph w)
              \<lparr>messages = [SYSTEM_PROMPT, human],
                call_id = dict_get body ''call_id'' (JStr ''unknown'')\<rparr>
              \<lparr>thread_id = dict_get body ''call_id'' (JStr ''unknown'')\<rparr> = (Inr result, g') \<and>
            slice80 (last_ai_content result) = Inr shown \<and>
            json_finite (dict_get body ''call_id'' (JStr ''unknown'')) \<and>
            json_finite (last_ai_content result) \<longrightarrow>
            fst (retell_webhook SYSTEM_PROMPT ainvoke (JObj body) w) =
              Inr (Response (JObj
                [(''response_id'', dict_get body ''call_id'' (JStr ''unknown'')),
                 (''content'', last_ai_content result),
                 (''content_complete'', JBool True),
                 (''end_call'', JBool False)])) \<and>
            fst (retell_webhook SYSTEM_PROMPT ainvoke (JObj body') w) =
              Inr (Response (JObj
                [(''response_id'', dict_get body ''call_id'' (JStr ''unknown'')),
                 (''content'', last_ai_content result),
                 (''content_complete'', JBool True),
                 (''end_call'', JBool False)]))) \<and>
         (\<forall>resp. fst (retell_webhook SYSTEM_PROMPT ainvoke (JObj body) w) = Inr resp \<longrightarrow>
            (\<exists>agent_reply. resp = Response (JObj
               [(''response_id'', dict_get body ''call_id'' (JStr ''unknown'')),
                (''content'', agent_reply),
                (''content_complete'', JBool True),
                (''end_call'', JBool False)])))"
proof -
  let ?cid = "dict_get body ''call_id'' (JStr ''unknown'')"
  let ?r = "\<lambda>b. retell_webhook SYSTEM_PROMPT ainvoke (JObj b) w"
  let ?a = "active_turn SYSTEM_PROMPT ainvoke ?cid body w"
  have cid: "dict_get body' ''call_id'' (JStr ''unknown'') = ?cid"
    using assms(1) by (simp add: dict_get_def)
  have tr: "map_of body' ''transcript'' = map_of body ''transcript''"
    using assms(1) by simp
  have same: "active_turn SYSTEM_PROMPT ainvoke ?cid body' v = active_turn SYSTEM_PROMPT ainvoke ?cid body v"
    for v
    using tr by (rule active_turn_transcript_only)
  have obs: "fst (?r body) = fst ?a \<and> graph (snd (?r body)) = graph (snd ?a) \<and>
             invoked (snd (?r body)) = invoked (snd ?a)"
    using active_turn_log [where SYSTEM_PROMPT = SYSTEM_PROMPT and ainvoke = ainvoke
        and cid = ?cid and body = body and w = w]
    by (simp add: retell_webhook_active [OF assms(2,3)] logger_info_def)
  have obs': "fst (?r body') = fst ?a \<and> graph (snd (?r body')) = graph (snd ?a) \<and>
             invoked (snd (?r body')) = invoked (snd ?a)"
    using active_turn_log [where SYSTEM_PROMPT = SYSTEM_PROMPT and ainvoke = ainvoke
        and cid = ?cid and body = body and w = w]
    by (simp add: retell_webhook_active [OF assms(4,5)] logger_info_def cid same)
  have inv: "\<forall>utterance human.
            last_user_text (dict_get body ''transcript'' (JArr [])) = Inr utterance \<and>
            HumanMessage (greet_if_empty utterance) = Inr human \<longrightarrow>
            invoked (snd (?r body)) =
              invoked w @
                [(\<lparr>messages = [SYSTEM_PROMPT, human], call_id = ?cid\<rparr>, \<lparr>thread_id = ?cid\<rparr>)]"
    using retell_webhook_invoked [OF assms(2,3)] by blast
  have answered: "\<forall>utterance human result g' shown.
            last_user_text (dict_get body ''transcript'' (JArr [])) = Inr utterance \<and>
            HumanMessage (greet_if_empty utterance) = Inr human \<and>
            ainvoke (graph w) \<lparr>messages = [SYSTEM_PROMPT, human], call_id = ?cid\<rparr>
              \<lparr>thread_id = ?cid\<rparr> = (Inr result, g') \<and>
            slice80 (last_ai_content result) = Inr shown \<and>
            json_finite ?cid \<and> json_finite (last_ai_content result) \<longrightarrow>
            fst ?a = Inr (Response (JObj
                [(''response_id'', ?cid),
                 (''content'', last_ai_content result),
                 (''content_complete'', JBool True),
                 (''end_call'', JBool False)]))"
    unfolding active_turn_Inr by blast
  have shape: "\<forall>resp. fst ?a = Inr resp \<longrightarrow>
            (\<exists>agent_reply. resp = Response (JObj
               [(''response_id'', ?cid),
                (''content'', agent_reply),
                (''content_complete'', JBool True),
                (''end_call'', JBool False)]))"
    unfolding active_turn_Inr by blast
  from obs obs' inv answered shape show ?thesis
    by simp
qed

text \<open>
  A body with no event and the same body with an event of an unknown name: both are
  answered, with the same four keys, after the same invocation of the graph.
\<close>

theorem other_events_alike_witness:
  "fst (retell_webhook demo_prompt demo_graph
      (JObj [(''call_id'', JStr ''abc''),
             (''transcript'', JArr [JObj [(''role'', JStr ''user''), (''content'', JStr ''una cita'')]])])
      demo_world) =
     Inr (Response (JObj
       [(''response_id'', JStr ''abc''),
        (''content'', JStr ''Buenos dias''),
        (''content_complete'', JBool True),
        (''end_call'', JBool False)]))
   \<and> fst (retell_webhook demo_prompt demo_graph
      (JObj [(''call_id'', JStr ''abc''), (''event'', JStr ''call_resumed''),
             (''transcript'', JArr [JObj [(''role'', JStr ''user''), (''content'', JStr ''una cita'')]])])
      demo_world) =
     Inr (Response (JObj
       [(''response_id'', JStr ''abc''),
        (''content'', JStr ''Buenos dias''),
        (''content_complete'', JBool True),
        (''end_call'', JBool False)]))
   \<and> invoked (snd (retell_webhook demo_prompt demo_graph
      (JObj [(''call_id'', JStr ''abc''), (''event'', JStr ''call_resumed''),
             (''transcript'', JArr [JObj [(''role'', JStr ''user''), (''content'', JStr ''una cita'')]])])
      demo_world)) =
     [(\<lparr>messages = [demo_prompt, Message ''human'' (Some (JStr ''una cita''))],
         call_id = JStr ''abc''\<rparr>,
       \<lparr>thread_id = JStr ''abc''\<rparr>)]"
proof -
  let ?unset = "[(''call_id'', JStr ''abc''),
             (''transcript'', JArr [JObj [(''role'', JStr ''user''), (''content'', JStr ''una cita'')]])]"
  let ?other = "[(''call_id'', JStr ''abc''), (''event'', JStr ''call_resumed''),
             (''transcript'', JArr [JObj [(''role'', JStr ''user''), (''content'', JStr ''una cita'')]])]"
  let ?human = "Message ''human'' (Some (JStr ''una cita''))"
  let ?result = "\<lparr>result_messages = Some
        [demo_prompt, ?human, Message ''ai'' (Some (JStr ''Buenos dias''))]\<rparr>"
  have agree: "\<forall>k. k \<noteq> ''event'' \<longrightarrow> map_of ?unset k = map_of ?other k"
    by simp
  have unset: "dict_get ?unset ''event'' (JStr '''') \<noteq> JStr ''call_ended''"
      "dict_get ?unset ''event'' (JStr '''') \<noteq> JStr ''call_analyzed''"
    by (simp_all add: dict_get_def)
  have other: "dict_get ?other ''event'' (JStr '''') \<noteq> JStr ''call_ended''"
      "dict_get ?other ''event'' (JStr '''') \<noteq> JStr ''call_analyzed''"
    by (simp_all add: dict_get_def)
  have cid: "dict_get ?unset ''call_id'' (JStr ''unknown'') = JStr ''abc''"
    by (simp add: dict_get_def)
  have reply: "last_ai_content ?result = JStr ''Buenos dias''"
    by (simp add: last_ai_content_def)
  have h: "last_user_text (dict_get ?unset ''transcript'' (JArr [])) = Inr (JStr ''una cita'') \<and>
      HumanMessage (greet_if_empty (JStr ''una cita'')) = Inr ?human \<and>
      demo_graph (graph demo_world)
        \<lparr>messages = [demo_prompt, ?human],
          call_id = dict_get ?unset ''call_id'' (JStr ''unknown'')\<rparr>
        \<lparr>thread_id = dict_get ?unset ''call_id'' (JStr ''unknown'')\<rparr> = (Inr ?result, 1) \<and>
      slice80 (last_ai_content ?result) = Inr (JStr ''Buenos dias'') \<and>
      json_finite (dict_get ?unset ''call_id'' (JStr ''unknown'')) \<and>
      json_finite (last_ai_content ?result)"
    by (simp add: dict_get_def last_user_text_def greet_if_empty_def demo_graph_def
        demo_world_def last_ai_content_def)
  note alike = other_events_alike [OF agree unset other, of demo_prompt demo_graph demo_world]
  have answered: "fst (retell_webhook demo_prompt demo_graph (JObj ?unset) demo_world) =
        Inr (Response (JObj
          [(''response_id'', dict_get ?unset ''call_id'' (JStr ''unknown'')),
           (''content'', last_ai_content ?result),
           (''content_complete'', JBool True),
           (''end_call'', JBool False)]))
      \<and> fst (retell_webhook demo_prompt demo_graph (JObj ?other) demo_world) =
        Inr (Response (JObj
          [(''response_id'', dict_get ?unset ''call_id'' (JStr ''unknown'')),
           (''content'', last_ai_content ?result),
           (''content_complete'', JBool True),
           (''end_call'', JBool False)]))"
    using alike h by blast
  have "invoked (snd (retell_webhook demo_prompt demo_graph (JObj ?other) demo_world)) =
      invoked demo_world @
        [(\<lparr>messages = [demo_prompt, ?human],
            call_id = dict_get ?unset ''call_id'' (JStr ''unknown'')\<rparr>,
          \<lparr>thread_id = dict_get ?unset ''call_id'' (JStr ''unknown'')\<rparr>)]"
    using alike h by metis
  with answered show ?thesis
    by (simp add: cid reply demo_world_def)
qed

subsection \<open>The health check\<close>

text \<open>
  C10. \<^verbatim>\<open>health\<close> returns the dict \<^verbatim>\<open>{"status": "ok"}\<close>: it never raises, it leaves the
  world as it was, and what it returns is the same in every world.
\<close>

theorem health_constant:
  "health w = (Inr (JObj [(''status'', JStr ''ok'')]), w) \<and> fst (health w) = fst (health w')"
  by (simp add: health_def)

end
